theory Spec2Isabelle
  imports Main
begin

section \<open>Go values used by server.go\<close>

text \<open>
  A run-time panic of the Go program is a value. Two kinds can arise in server.go:
  an assignment to an entry of a nil map, and a method call through a nil interface
  value (the nil \<^verbatim>\<open>multipart.File\<close> handed to \<^verbatim>\<open>ioutil.ReadAll\<close>).
\<close>

datatype panic = NilMapAssignment | NilPointerDereference

text \<open>
  A Go map is either nil or an initialised table. Reading a nil map behaves like
  reading an empty one; assigning to an entry of a nil map panics.
\<close>

type_synonym ('k, 'v) gomap = "('k \<rightharpoonup> 'v) option"

definition map_index :: "('k, 'v) gomap \<Rightarrow> 'k \<Rightarrow> 'v option" where
  "map_index m k = (case m of None \<Rightarrow> None | Some t \<Rightarrow> t k)"

definition map_assign :: "('k, 'v) gomap \<Rightarrow> 'k \<Rightarrow> 'v \<Rightarrow> panic + ('k, 'v) gomap" where
  "map_assign m k v = (case m of None \<Rightarrow> Inl NilMapAssignment | Some t \<Rightarrow> Inr (Some (t(k \<mapsto> v))))"

text \<open>
  Indexing a map of slices yields the zero value, the nil slice, for a missing key.
  A nil slice and an empty slice are both the empty list.
\<close>

definition slice_index :: "('k, 'v list) gomap \<Rightarrow> 'k \<Rightarrow> 'v list" where
  "slice_index m k = (case map_index m k of None \<Rightarrow> [] | Some xs \<Rightarrow> xs)"

section \<open>Requests\<close>

text \<open>
  \<^verbatim>\<open>multipart.File\<close> as \<^verbatim>\<open>ioutil.ReadAll\<close> sees it: the bytes that reading it yields
  and the error, if any, that ends the read.
\<close>

datatype multipart_File = File (contents: string) (readErr: "string option")

definition ReadAll :: "multipart_File \<Rightarrow> string \<times> string option" where
  "ReadAll f = (contents f, readErr f)"

text \<open>
  The fields of \<^verbatim>\<open>http.Request\<close> that server.go reads. \<open>FormFile\<close> is the outcome
  of \<^verbatim>\<open>r.FormFile("file")\<close>: the file (None for the nil interface value) and the
  error (None for nil). \<open>ReqHeader\<close> stands for the rest of the request, which the
  server stores but never inspects.
\<close>

record Request =
  Method :: string
  URL_Path :: string
  URL_RawQuery :: string
  ReqHeader :: "(string \<times> string) list"
  FormFile :: "multipart_File option \<times> string option"

section \<open>The response writer\<close>

text \<open>
  \<^verbatim>\<open>http.ResponseWriter\<close> by its documented contract: the header map may be changed
  freely until the first \<open>WriteHeader\<close> (explicit, or implied by the first \<open>Write\<close>);
  that call fixes the status code and the headers that go on the wire, and later
  changes of the header map have no effect. A second \<open>WriteHeader\<close> is ignored.
  The model covers final status codes that allow a body; these are the only ones
  server.go produces (200 from the configuration operations, 404 and 500).
\<close>

type_synonym Header = "string \<rightharpoonup> string list"

definition Header_Add :: "Header \<Rightarrow> string \<Rightarrow> string \<Rightarrow> Header" where
  "Header_Add h k v = h(k \<mapsto> (case h k of None \<Rightarrow> [] | Some vs \<Rightarrow> vs) @ [v])"

definition Header_Set :: "Header \<Rightarrow> string \<Rightarrow> string \<Rightarrow> Header" where
  "Header_Set h k v = h(k \<mapsto> [v])"

record ResponseWriter =
  header :: Header
  wroteHeader :: bool
  status :: int
  sentHeader :: Header
  body :: string

definition NewResponseWriter :: ResponseWriter where
  "NewResponseWriter =
     \<lparr>header = Map.empty, wroteHeader = False, status = 0, sentHeader = Map.empty, body = []\<rparr>"

definition WriteHeader :: "ResponseWriter \<Rightarrow> int \<Rightarrow> ResponseWriter" where
  "WriteHeader w code =
     (if wroteHeader w then w
      else w\<lparr>wroteHeader := True, status := code, sentHeader := header w\<rparr>)"

definition Write :: "ResponseWriter \<Rightarrow> string \<Rightarrow> ResponseWriter" where
  "Write w bs =
     (let w1 = (if wroteHeader w then w else WriteHeader w 200)
      in w1\<lparr>body := body w1 @ bs\<rparr>)"

text \<open>
  \<^verbatim>\<open>http.Error(w, error, code)\<close>: sets the two headers, writes the status, and prints
  the message with \<^verbatim>\<open>fmt.Fprintln\<close>, that is, followed by a line feed. Recent Go
  releases also delete \<open>Content-Length\<close> and a few other headers first; server.go never
  sets any of them, so the deletion changes nothing here and is left out.
\<close>

definition http_Error :: "ResponseWriter \<Rightarrow> string \<Rightarrow> int \<Rightarrow> ResponseWriter" where
  "http_Error w msg code =
     (let h1 = Header_Set (header w) ''Content-Type'' ''text/plain; charset=utf-8'';
          h2 = Header_Set h1 ''X-Content-Type-Options'' ''nosniff'';
          w1 = WriteHeader (w\<lparr>header := h2\<rparr>) code
      in Write w1 (msg @ [CHR 0x0A]))"

section \<open>The server\<close>

record Response =
  StatusCode :: int
  Body :: string

text \<open>\<^verbatim>\<open>httptest.Server\<close>: the address it listens on and whether it has been closed.\<close>

record httptest_Server =
  httptest_URL :: string
  closed :: bool

record Server =
  server :: "httptest_Server option"
  url :: "string option"
  httpGETRequests :: "(string, Request list) gomap"
  httpGETResponses :: "(string, Response) gomap"
  httpPOSTRequests :: "(string, Request list) gomap"
  httpPOSTResponses :: "(string, Response) gomap"

definition New :: Server where
  "New = \<lparr>server = None, url = None,
          httpGETRequests = None, httpGETResponses = None,
          httpPOSTRequests = None, httpPOSTResponses = None\<rparr>"

text \<open>\<^verbatim>\<open>httptest.Server.Close\<close> closes the listener once and is a no-op afterwards.\<close>

definition httptest_Close :: "httptest_Server \<Rightarrow> httptest_Server" where
  "httptest_Close srv = (if closed srv then srv else srv\<lparr>closed := True\<rparr>)"

text \<open>\<open>Close\<close> returns the error (always nil, None) and the server.\<close>

definition Close :: "Server \<Rightarrow> string option \<times> Server" where
  "Close s =
     (case server s of
        None \<Rightarrow> (None, s)
      | Some srv \<Rightarrow> (None, s\<lparr>server := Some (httptest_Close srv)\<rparr>))"

definition GetGETRequests :: "Server \<Rightarrow> string \<Rightarrow> Request list" where
  "GetGETRequests s key = slice_index (httpGETRequests s) key"

definition GetPOSTRequests :: "Server \<Rightarrow> string \<Rightarrow> Request list" where
  "GetPOSTRequests s key = slice_index (httpPOSTRequests s) key"

text \<open>
  \<open>Open\<close> takes the address that \<^verbatim>\<open>httptest.NewServer\<close> bound; parsing that
  address succeeds, so the returned error is nil.
\<close>

definition Open :: "Server \<Rightarrow> string \<Rightarrow> string option \<times> Server" where
  "Open s addr =
     (None, s\<lparr>server := Some \<lparr>httptest_URL = addr, closed = False\<rparr>, url := Some addr\<rparr>)"

definition Reset :: "Server \<Rightarrow> Server" where
  "Reset s =
     s\<lparr>httpGETResponses := Some Map.empty, httpPOSTResponses := Some Map.empty,
       httpGETRequests := Some Map.empty, httpPOSTRequests := Some Map.empty\<rparr>"

definition SetGETResponseBody :: "Server \<Rightarrow> string \<Rightarrow> string \<Rightarrow> panic + Server" where
  "SetGETResponseBody s key responseBody =
     (case map_assign (httpGETResponses s) key \<lparr>StatusCode = 200, Body = responseBody\<rparr> of
        Inl p \<Rightarrow> Inl p
      | Inr m \<Rightarrow> Inr (s\<lparr>httpGETResponses := m\<rparr>))"

definition SetPOSTResponseBody :: "Server \<Rightarrow> string \<Rightarrow> string \<Rightarrow> panic + Server" where
  "SetPOSTResponseBody s key responseBody =
     (case map_assign (httpPOSTResponses s) key \<lparr>StatusCode = 200, Body = responseBody\<rparr> of
        Inl p \<Rightarrow> Inl p
      | Inr m \<Rightarrow> Inr (s\<lparr>httpPOSTResponses := m\<rparr>))"

definition URL :: "Server \<Rightarrow> panic + string" where
  "URL s = (case url s of None \<Rightarrow> Inl NilPointerDereference | Some u \<Rightarrow> Inr u)"

subsection \<open>Request handlers\<close>

text \<open>
  A handler returns the panic that ended it (None when it returned normally), the
  server and the response writer as they are at that point.
\<close>

type_synonym handled = "panic option \<times> Server \<times> ResponseWriter"

definition handleGetRequest :: "Server \<Rightarrow> ResponseWriter \<Rightarrow> Request \<Rightarrow> handled" where
  "handleGetRequest s w r =
     (let key = URL_Path r @ ''?'' @ URL_RawQuery r
      in case map_assign (httpGETRequests s) key (slice_index (httpGETRequests s) key @ [r]) of
           Inl p \<Rightarrow> (Some p, s, w)
         | Inr m \<Rightarrow>
             (let s1 = s\<lparr>httpGETRequests := m\<rparr>
              in case map_index (httpGETResponses s1) key of
                   None \<Rightarrow>
                     (let w1 = WriteHeader w 404;
                          w2 = Write w1 (''No httpGETResponse for '' @ [CHR 0x27] @ key @ [CHR 0x27])
                      in (None, s1, w2))
                 | Some response \<Rightarrow>
                     (let w1 = WriteHeader w (StatusCode response);
                          w2 = w1\<lparr>header := Header_Add (header w1) ''Content-Type'' ''application/json''\<rparr>;
                          w3 = Write w2 (Body response)
                      in (None, s1, w3))))"

definition handlePostRequest :: "Server \<Rightarrow> ResponseWriter \<Rightarrow> Request \<Rightarrow> handled" where
  "handlePostRequest s w r =
     (let (f, err) = FormFile r;
          wa = (case err of None \<Rightarrow> w | Some e \<Rightarrow> http_Error w e 500)
      in case f of
           None \<Rightarrow> (Some NilPointerDereference, s, wa)
         | Some file \<Rightarrow>
             (let (body, err2) = ReadAll file;
                  wb = (case err2 of None \<Rightarrow> wa | Some e \<Rightarrow> http_Error wa e 500);
                  key = URL_Path r @ ''?'' @ URL_RawQuery r @ '' '' @ body
              in case map_assign (httpPOSTRequests s) key (slice_index (httpPOSTRequests s) key @ [r]) of
                   Inl p \<Rightarrow> (Some p, s, wb)
                 | Inr m \<Rightarrow>
                     (let s1 = s\<lparr>httpPOSTRequests := m\<rparr>
                      in case map_index (httpPOSTResponses s1) key of
                           None \<Rightarrow>
                             (let w1 = WriteHeader wb 404;
                                  w2 = Write w1 (''No httpPOSTResponse for '' @ [CHR 0x27] @ key @ [CHR 0x27])
                              in (None, s1, w2))
                         | Some response \<Rightarrow>
                             (let w1 = WriteHeader wb (StatusCode response);
                                  w2 = w1\<lparr>header := Header_Add (header w1) ''Content-Type'' ''application/json''\<rparr>;
                                  w3 = Write w2 (Body response)
                              in (None, s1, w3)))))"

definition handleRequest :: "Server \<Rightarrow> ResponseWriter \<Rightarrow> Request \<Rightarrow> handled" where
  "handleRequest s w r =
     (if Method r = ''GET'' then handleGetRequest s w r
      else if Method r = ''POST'' then handlePostRequest s w r
      else (None, s, w))"

subsection \<open>What the client receives, and serving a sequence of requests\<close>

text \<open>
  When a handler returns, net/http completes the response: if the handler never wrote
  a status, status 200 is written. The client receives the status, the headers fixed
  by \<open>WriteHeader\<close> and the body. When a handler panics, net/http recovers the panic
  and closes the connection; the response is not completed, and the server keeps the
  state it had at the panic.
\<close>

record HTTPResponse =
  resp_status :: int
  resp_header :: Header
  resp_body :: string

definition finishRequest :: "ResponseWriter \<Rightarrow> ResponseWriter" where
  "finishRequest w = (if wroteHeader w then w else WriteHeader w 200)"

definition client_response :: "handled \<Rightarrow> HTTPResponse option" where
  "client_response h =
     (case h of
        (Some p, s, w) \<Rightarrow> None
      | (None, s, w) \<Rightarrow>
          (let w1 = finishRequest w
           in Some \<lparr>resp_status = status w1, resp_header = sentHeader w1, resp_body = body w1\<rparr>))"

text \<open>Each inbound request is handled with a fresh response writer.\<close>

definition serve :: "Server \<Rightarrow> Request \<Rightarrow> Server" where
  "serve s r = fst (snd (handleRequest s NewResponseWriter r))"

definition respond :: "Server \<Rightarrow> Request \<Rightarrow> HTTPResponse option" where
  "respond s r = client_response (handleRequest s NewResponseWriter r)"

fun serve_all :: "Server \<Rightarrow> Request list \<Rightarrow> Server" where
  "serve_all s [] = s"
| "serve_all s (r # rs) = serve_all (serve s r) rs"

text \<open>
  The key under which a request is recorded, if it is recorded at all: a GET request
  under path, \<open>?\<close> and raw query; a POST request whose file is not nil under the same
  followed by a space and the file's contents; any other request under no key.
\<close>

definition getKey :: "Request \<Rightarrow> string" where
  "getKey r = URL_Path r @ ''?'' @ URL_RawQuery r"

definition postKey :: "Request \<Rightarrow> string \<Rightarrow> string" where
  "postKey r content = URL_Path r @ ''?'' @ URL_RawQuery r @ '' '' @ content"

definition recordedGET :: "string \<Rightarrow> Request \<Rightarrow> bool" where
  "recordedGET k r = (Method r = ''GET'' \<and> getKey r = k)"

definition recordedPOST :: "string \<Rightarrow> Request \<Rightarrow> bool" where
  "recordedPOST k r =
     (Method r = ''POST'' \<and>
      (case fst (FormFile r) of None \<Rightarrow> False | Some file \<Rightarrow> postKey r (fst (ReadAll file)) = k))"

text \<open>
  The calls a test program makes on a server, in order. A panic in a configuration
  call ends the test program; a panic inside a handler is recovered by net/http.
\<close>

datatype call =
    CallOpen string
  | CallClose
  | CallReset
  | CallSetGET string string
  | CallSetPOST string string
  | Inbound Request

fun step :: "Server \<Rightarrow> call \<Rightarrow> panic + Server" where
  "step s (CallOpen addr) = Inr (snd (Open s addr))"
| "step s CallClose = Inr (snd (Close s))"
| "step s CallReset = Inr (Reset s)"
| "step s (CallSetGET k b) = SetGETResponseBody s k b"
| "step s (CallSetPOST k b) = SetPOSTResponseBody s k b"
| "step s (Inbound r) = Inr (serve s r)"

fun inbound :: "call list \<Rightarrow> Request list" where
  "inbound [] = []"
| "inbound (Inbound r # cs) = r # inbound cs"
| "inbound (c # cs) = inbound cs"

fun run :: "Server \<Rightarrow> call list \<Rightarrow> panic + Server" where
  "run s [] = Inr s"
| "run s (c # cs) = (case step s c of Inl p \<Rightarrow> Inl p | Inr s1 \<Rightarrow> run s1 cs)"

text \<open>A server none of whose four maps has been initialised.\<close>

definition uninitialised :: "Server \<Rightarrow> bool" where
  "uninitialised s =
     (httpGETRequests s = None \<and> httpGETResponses s = None \<and>
      httpPOSTRequests s = None \<and> httpPOSTResponses s = None)"

section \<open>How handling a request changes the server\<close>

lemma handleGetRequest_nil:
  "httpGETRequests s = None \<Longrightarrow> handleGetRequest s w r = (Some NilMapAssignment, s, w)"
  by (simp add: handleGetRequest_def map_assign_def Let_def)

lemma handleGetRequest_server:
  "httpGETRequests s = Some t \<Longrightarrow>
   fst (snd (handleGetRequest s w r)) =
     s\<lparr>httpGETRequests := Some (t(getKey r \<mapsto> GetGETRequests s (getKey r) @ [r]))\<rparr>"
  by (simp add: handleGetRequest_def getKey_def GetGETRequests_def map_assign_def Let_def
           split: option.splits)

lemma handlePostRequest_nofile:
  "fst (FormFile r) = None \<Longrightarrow> fst (handlePostRequest s w r) = Some NilPointerDereference \<and> fst (snd (handlePostRequest s w r)) = s"
  by (simp add: handlePostRequest_def Let_def case_prod_beta)

lemma handlePostRequest_nil:
  "fst (FormFile r) = Some file \<Longrightarrow> httpPOSTRequests s = None \<Longrightarrow>
   fst (handlePostRequest s w r) = Some NilMapAssignment \<and> fst (snd (handlePostRequest s w r)) = s"
  by (simp add: handlePostRequest_def map_assign_def Let_def case_prod_beta)

lemma handlePostRequest_server:
  "fst (FormFile r) = Some file \<Longrightarrow> httpPOSTRequests s = Some t \<Longrightarrow>
   fst (snd (handlePostRequest s w r)) =
     s\<lparr>httpPOSTRequests :=
         Some (t(postKey r (fst (ReadAll file)) \<mapsto>
                  GetPOSTRequests s (postKey r (fst (ReadAll file))) @ [r]))\<rparr>"
  by (simp add: handlePostRequest_def postKey_def GetPOSTRequests_def map_assign_def Let_def
           case_prod_beta split: option.splits)

lemma serve_GET:
  "Method r = ''GET'' \<Longrightarrow> httpGETRequests s = Some t \<Longrightarrow>
   serve s r = s\<lparr>httpGETRequests := Some (t(getKey r \<mapsto> GetGETRequests s (getKey r) @ [r]))\<rparr>"
  by (simp add: serve_def handleRequest_def handleGetRequest_server)

lemma serve_POST:
  "Method r = ''POST'' \<Longrightarrow> fst (FormFile r) = Some file \<Longrightarrow> httpPOSTRequests s = Some t \<Longrightarrow>
   serve s r = s\<lparr>httpPOSTRequests :=
         Some (t(postKey r (fst (ReadAll file)) \<mapsto>
                  GetPOSTRequests s (postKey r (fst (ReadAll file))) @ [r]))\<rparr>"
  by (simp add: serve_def handleRequest_def handlePostRequest_server)

lemma serve_POST_nofile:
  "Method r = ''POST'' \<Longrightarrow> fst (FormFile r) = None \<Longrightarrow> serve s r = s"
  by (simp add: serve_def handleRequest_def handlePostRequest_nofile)

lemma serve_other:
  "Method r \<noteq> ''GET'' \<Longrightarrow> Method r \<noteq> ''POST'' \<Longrightarrow> serve s r = s"
  by (simp add: serve_def handleRequest_def)

lemma serve_GET_nil:
  "Method r = ''GET'' \<Longrightarrow> httpGETRequests s = None \<Longrightarrow> serve s r = s"
  by (simp add: serve_def handleRequest_def handleGetRequest_nil)

lemma serve_POST_nil:
  "Method r = ''POST'' \<Longrightarrow> httpPOSTRequests s = None \<Longrightarrow> serve s r = s"
  by (cases "fst (FormFile r)") (simp_all add: serve_def handleRequest_def handlePostRequest_nofile handlePostRequest_nil)

lemma serve_unchanged_or_recorded:
  "serve s r = s \<or>
   (\<exists>t. httpGETRequests s = Some t \<and>
      serve s r = s\<lparr>httpGETRequests := Some (t(getKey r \<mapsto> GetGETRequests s (getKey r) @ [r]))\<rparr>) \<or>
   (\<exists>t k. httpPOSTRequests s = Some t \<and>
      serve s r = s\<lparr>httpPOSTRequests := Some (t(k \<mapsto> GetPOSTRequests s k @ [r]))\<rparr>)"
proof (cases "Method r = ''GET''")
  case True
  then show ?thesis
    by (cases "httpGETRequests s") (simp_all add: serve_GET_nil serve_GET)
next
  case notget: False
  show ?thesis
  proof (cases "Method r = ''POST''")
    case False
    with notget show ?thesis by (simp add: serve_other)
  next
    case True
    show ?thesis
    proof (cases "fst (FormFile r)")
      case None
      with True show ?thesis by (simp add: serve_POST_nofile)
    next
      case (Some fl)
      show ?thesis
      proof (cases "httpPOSTRequests s")
        case None
        with True show ?thesis by (simp add: serve_POST_nil)
      next
        case (Some t)
        from serve_POST [OF True \<open>fst (FormFile r) = Some fl\<close> Some] Some
        show ?thesis by blast
      qed
    qed
  qed
qed

lemma GetGETRequests_serve:
  assumes "httpGETRequests s \<noteq> None"
  shows "GetGETRequests (serve s r) k = GetGETRequests s k @ (if recordedGET k r then [r] else [])"
proof -
  from assms obtain t where t: "httpGETRequests s = Some t" by auto
  show ?thesis
  proof (cases "Method r = ''GET''")
    case True
    show ?thesis
      by (simp add: serve_GET [OF True t] recordedGET_def True)
         (simp add: GetGETRequests_def slice_index_def map_index_def t)
  next
    case notget: False
    have "httpGETRequests (serve s r) = httpGETRequests s"
    proof (cases "Method r = ''POST''")
      case False
      with notget show ?thesis by (simp add: serve_other)
    next
      case True
      show ?thesis
      proof (cases "fst (FormFile r)")
        case None
        with True show ?thesis by (simp add: serve_POST_nofile)
      next
        case (Some fl)
        show ?thesis
        proof (cases "httpPOSTRequests s")
          case None
          with True show ?thesis by (simp add: serve_POST_nil)
        next
          case (Some u)
          show ?thesis
            by (simp add: serve_POST [OF True \<open>fst (FormFile r) = Some fl\<close> Some])
        qed
      qed
    qed
    with notget show ?thesis
      by (simp add: GetGETRequests_def recordedGET_def)
  qed
qed

lemma GetPOSTRequests_serve:
  assumes "httpPOSTRequests s \<noteq> None"
  shows "GetPOSTRequests (serve s r) k = GetPOSTRequests s k @ (if recordedPOST k r then [r] else [])"
proof -
  from assms obtain t where t: "httpPOSTRequests s = Some t" by auto
  show ?thesis
  proof (cases "Method r = ''GET''")
    case True
    have "httpPOSTRequests (serve s r) = httpPOSTRequests s"
      by (cases "httpGETRequests s") (simp_all add: serve_GET_nil serve_GET True)
    with True show ?thesis
      by (simp add: GetPOSTRequests_def recordedPOST_def)
  next
    case notget: False
    show ?thesis
    proof (cases "Method r = ''POST''")
      case False
      with notget show ?thesis by (simp add: serve_other recordedPOST_def)
    next
      case True
      show ?thesis
      proof (cases "fst (FormFile r)")
        case None
        with True show ?thesis by (simp add: serve_POST_nofile recordedPOST_def)
      next
        case (Some fl)
        show ?thesis
          by (simp add: serve_POST [OF True Some t] recordedPOST_def True Some)
             (simp add: GetPOSTRequests_def slice_index_def map_index_def t)
      qed
    qed
  qed
qed

lemma serve_keeps_initialised:
  "httpGETRequests s \<noteq> None \<Longrightarrow> httpGETRequests (serve s r) \<noteq> None"
  "httpPOSTRequests s \<noteq> None \<Longrightarrow> httpPOSTRequests (serve s r) \<noteq> None"
  using serve_unchanged_or_recorded [of s r] by auto

lemma serve_keeps_nil:
  "httpGETRequests s = None \<Longrightarrow> httpGETRequests (serve s r) = None"
  "httpPOSTRequests s = None \<Longrightarrow> httpPOSTRequests (serve s r) = None"
  using serve_unchanged_or_recorded [of s r] by auto

lemma serve_frame:
  "server (serve s r) = server s" "url (serve s r) = url s"
  "httpGETResponses (serve s r) = httpGETResponses s"
  "httpPOSTResponses (serve s r) = httpPOSTResponses s"
  using serve_unchanged_or_recorded [of s r] by auto

lemma GetGETRequests_serve_all:
  "httpGETRequests s \<noteq> None \<Longrightarrow>
   GetGETRequests (serve_all s rs) k = GetGETRequests s k @ filter (recordedGET k) rs"
proof (induction rs arbitrary: s)
  case Nil
  then show ?case by simp
next
  case (Cons r rs)
  from Cons.prems have "httpGETRequests (serve s r) \<noteq> None"
    by (rule serve_keeps_initialised)
  from Cons.IH [OF this] GetGETRequests_serve [OF Cons.prems, of r k]
  show ?case by simp
qed

lemma GetPOSTRequests_serve_all:
  "httpPOSTRequests s \<noteq> None \<Longrightarrow>
   GetPOSTRequests (serve_all s rs) k = GetPOSTRequests s k @ filter (recordedPOST k) rs"
proof (induction rs arbitrary: s)
  case Nil
  then show ?case by simp
next
  case (Cons r rs)
  from Cons.prems have "httpPOSTRequests (serve s r) \<noteq> None"
    by (rule serve_keeps_initialised)
  from Cons.IH [OF this] GetPOSTRequests_serve [OF Cons.prems, of r k]
  show ?case by simp
qed

section \<open>Serving configured and unconfigured GET requests\<close>

lemma GET_configured_response:
  assumes "httpGETRequests s \<noteq> None" and "Method r = ''GET''"
    and "map_index (httpGETResponses s) (getKey r) = Some \<lparr>StatusCode = 200, Body = b\<rparr>"
  shows "respond s r = Some \<lparr>resp_status = 200, resp_header = Map.empty, resp_body = b\<rparr>"
    and "header (snd (snd (handleRequest s NewResponseWriter r))) ''Content-Type'' =
           Some [''application/json'']"
  using assms
  by (auto simp: respond_def handleRequest_def handleGetRequest_def getKey_def map_assign_def
      client_response_def finishRequest_def WriteHeader_def Write_def NewResponseWriter_def
      Header_Add_def Let_def split: option.splits)

text \<open>
  Claim C1. After \<open>SetGETResponseBody(k, b)\<close>, a GET whose path and raw query make up
  \<open>k\<close> is to receive status 200, the header \<open>Content-Type: application/json\<close> and
  body \<open>b\<close>. The handler calls \<open>WriteHeader\<close> before it adds the header, so the
  header is in the writer's header map but not among the headers that were sent. The
  theorem runs the code on a freshly reset server with the response \<open>{}\<close> registered
  under \<open>/a?\<close> and a GET for \<open>/a\<close>: the client receives status 200 and body
  \<open>{}\<close>, and no \<open>Content-Type\<close> set by the handler.
\<close>

theorem GET_Content_Type_not_sent:
  "SetGETResponseBody (Reset New) ''/a?'' ''{}'' =
     Inr ((Reset New)\<lparr>httpGETResponses := Some [''/a?'' \<mapsto> \<lparr>StatusCode = 200, Body = ''{}''\<rparr>]\<rparr>) \<and>
   map_option resp_status
     (respond ((Reset New)\<lparr>httpGETResponses := Some [''/a?'' \<mapsto> \<lparr>StatusCode = 200, Body = ''{}''\<rparr>]\<rparr>)
        \<lparr>Method = ''GET'', URL_Path = ''/a'', URL_RawQuery = [], ReqHeader = [], FormFile = (None, None)\<rparr>)
     = Some 200 \<and>
   map_option resp_body
     (respond ((Reset New)\<lparr>httpGETResponses := Some [''/a?'' \<mapsto> \<lparr>StatusCode = 200, Body = ''{}''\<rparr>]\<rparr>)
        \<lparr>Method = ''GET'', URL_Path = ''/a'', URL_RawQuery = [], ReqHeader = [], FormFile = (None, None)\<rparr>)
     = Some ''{}'' \<and>
   map_option (\<lambda>p. resp_header p ''Content-Type'')
     (respond ((Reset New)\<lparr>httpGETResponses := Some [''/a?'' \<mapsto> \<lparr>StatusCode = 200, Body = ''{}''\<rparr>]\<rparr>)
        \<lparr>Method = ''GET'', URL_Path = ''/a'', URL_RawQuery = [], ReqHeader = [], FormFile = (None, None)\<rparr>)
     = Some None"
  by (simp add: SetGETResponseBody_def Reset_def New_def map_assign_def respond_def handleRequest_def
      handleGetRequest_def map_index_def slice_index_def client_response_def finishRequest_def
      WriteHeader_def Write_def NewResponseWriter_def Header_Add_def Let_def)

text \<open>
  Claim C6. A GET request whose key, path followed by \<open>?\<close> and the raw query, has no
  configured response is answered with status 404 and the body
  \<open>No httpGETResponse for '<key>'\<close>. The request map must have been initialised by
  \<open>Reset\<close>: on a nil map the handler panics before it looks for a response.
\<close>

theorem GET_unconfigured_404:
  assumes "httpGETRequests s \<noteq> None" and "Method r = ''GET''"
    and "map_index (httpGETResponses s) (URL_Path r @ ''?'' @ URL_RawQuery r) = None"
  shows "map_option resp_status (respond s r) = Some 404 \<and>
         map_option resp_body (respond s r) =
           Some (''No httpGETResponse for '' @ [CHR 0x27] @ URL_Path r @ ''?'' @ URL_RawQuery r @ [CHR 0x27])"
  using assms
  by (auto simp: respond_def handleRequest_def handleGetRequest_def map_assign_def Let_def
      client_response_def finishRequest_def WriteHeader_def Write_def NewResponseWriter_def
      split: option.splits)

theorem GET_unconfigured_404_witness:
  "httpGETRequests (Reset New) \<noteq> None \<and>
   Method \<lparr>Method = ''GET'', URL_Path = ''/a'', URL_RawQuery = ''x=1'', ReqHeader = [], FormFile = (None, None)\<rparr> = ''GET'' \<and>
   map_index (httpGETResponses (Reset New)) (''/a'' @ ''?'' @ ''x=1'') = None \<and>
   map_option resp_status (respond (Reset New)
      \<lparr>Method = ''GET'', URL_Path = ''/a'', URL_RawQuery = ''x=1'', ReqHeader = [], FormFile = (None, None)\<rparr>) = Some 404 \<and>
   map_option resp_body (respond (Reset New)
      \<lparr>Method = ''GET'', URL_Path = ''/a'', URL_RawQuery = ''x=1'', ReqHeader = [], FormFile = (None, None)\<rparr>)
     = Some (''No httpGETResponse for '' @ [CHR 0x27] @ ''/a?x=1'' @ [CHR 0x27])"
  using GET_unconfigured_404 [of "Reset New"
      "\<lparr>Method = ''GET'', URL_Path = ''/a'', URL_RawQuery = ''x=1'', ReqHeader = [], FormFile = (None, None)\<rparr>"]
  by (simp add: Reset_def New_def map_index_def)

section \<open>POST requests\<close>

lemma handlePostRequest_nofile_writer:
  assumes "FormFile r = (None, Some e)"
  shows "fst (handlePostRequest s NewResponseWriter r) = Some NilPointerDereference \<and>
         fst (snd (handlePostRequest s NewResponseWriter r)) = s \<and>
         wroteHeader (snd (snd (handlePostRequest s NewResponseWriter r))) \<and>
         status (snd (snd (handlePostRequest s NewResponseWriter r))) = 500 \<and>
         body (snd (snd (handlePostRequest s NewResponseWriter r))) = e @ [CHR 0x0A]"
  using assms
  by (simp add: handlePostRequest_def http_Error_def Header_Set_def WriteHeader_def Write_def
      NewResponseWriter_def Let_def)

lemma respond_POST_nofile:
  assumes "Method r = ''POST''" and "fst (FormFile r) = None"
  shows "respond s r = None"
proof -
  from assms(2) have "fst (handlePostRequest s NewResponseWriter r) = Some NilPointerDereference"
    by (simp add: handlePostRequest_nofile)
  then obtain s1 w1 where "handlePostRequest s NewResponseWriter r = (Some NilPointerDereference, s1, w1)"
    by (cases "handlePostRequest s NewResponseWriter r") auto
  with assms(1) show ?thesis
    by (simp add: respond_def handleRequest_def client_response_def)
qed

text \<open>
  Claim C2. When the file field cannot be extracted, the handler is to write a 500
  response whose body is the text of the error, so that the caller receives a 500. The
  theorem runs the code on a freshly reset server and a POST for \<open>/upload\<close> without a
  file field, for which \<open>FormFile\<close> returns the nil file and the error
  \<open>http: no such file\<close>. The handler hands status 500 and the error text, ended by a
  line feed, to the writer, does not return, and panics on reading the nil file; the
  response is never completed, and the client receives none.
\<close>

theorem POST_missing_file_no_response:
  "status (snd (snd (handlePostRequest (Reset New) NewResponseWriter
      \<lparr>Method = ''POST'', URL_Path = ''/upload'', URL_RawQuery = [], ReqHeader = [],
       FormFile = (None, Some ''http: no such file'')\<rparr>))) = 500 \<and>
   body (snd (snd (handlePostRequest (Reset New) NewResponseWriter
      \<lparr>Method = ''POST'', URL_Path = ''/upload'', URL_RawQuery = [], ReqHeader = [],
       FormFile = (None, Some ''http: no such file'')\<rparr>))) = ''http: no such file'' @ [CHR 0x0A] \<and>
   fst (handlePostRequest (Reset New) NewResponseWriter
      \<lparr>Method = ''POST'', URL_Path = ''/upload'', URL_RawQuery = [], ReqHeader = [],
       FormFile = (None, Some ''http: no such file'')\<rparr>) = Some NilPointerDereference \<and>
   respond (Reset New)
      \<lparr>Method = ''POST'', URL_Path = ''/upload'', URL_RawQuery = [], ReqHeader = [],
       FormFile = (None, Some ''http: no such file'')\<rparr> = None"
  by (simp add: respond_def handleRequest_def handlePostRequest_def client_response_def
      http_Error_def Header_Set_def WriteHeader_def Write_def NewResponseWriter_def Let_def)

text \<open>
  Claim C3. For a POST request that carries the file field, the request is recorded
  under the key made of the path, \<open>?\<close>, the raw query, one space and the whole
  contents of the file, and under no other key; and when a response was registered
  under exactly that key with \<open>SetPOSTResponseBody\<close>, the client receives status 200
  and the registered body.
\<close>

theorem POST_key_and_configured_response:
  assumes "Method r = ''POST''"
    and "FormFile r = (Some (File content None), None)"
    and "httpPOSTRequests s \<noteq> None"
    and "SetPOSTResponseBody s (URL_Path r @ ''?'' @ URL_RawQuery r @ '' '' @ content) b = Inr s1"
  shows "GetPOSTRequests (serve s1 r) (URL_Path r @ ''?'' @ URL_RawQuery r @ '' '' @ content) =
           GetPOSTRequests s1 (URL_Path r @ ''?'' @ URL_RawQuery r @ '' '' @ content) @ [r] \<and>
         (\<forall>k. k \<noteq> URL_Path r @ ''?'' @ URL_RawQuery r @ '' '' @ content \<longrightarrow>
              GetPOSTRequests (serve s1 r) k = GetPOSTRequests s1 k) \<and>
         map_option resp_status (respond s1 r) = Some 200 \<and>
         map_option resp_body (respond s1 r) = Some b"
proof -
  from assms(4) obtain t where t: "httpPOSTResponses s = Some t"
    and s1: "s1 = s\<lparr>httpPOSTResponses := Some (t(URL_Path r @ ''?'' @ URL_RawQuery r @ '' '' @ content \<mapsto> \<lparr>StatusCode = 200, Body = b\<rparr>))\<rparr>"
    by (auto simp: SetPOSTResponseBody_def map_assign_def split: option.splits)
  from assms(3) s1 have init: "httpPOSTRequests s1 \<noteq> None" by simp
  have rec: "\<And>k. recordedPOST k r = (k = URL_Path r @ ''?'' @ URL_RawQuery r @ '' '' @ content)"
    using assms(1,2) by (auto simp: recordedPOST_def postKey_def ReadAll_def)
  have a: "\<And>k. GetPOSTRequests (serve s1 r) k = GetPOSTRequests s1 k @ (if recordedPOST k r then [r] else [])"
    using GetPOSTRequests_serve [OF init] .
  from init obtain u where u: "httpPOSTRequests s1 = Some u" by auto
  have resp: "respond s1 r = Some \<lparr>resp_status = 200, resp_header = Map.empty, resp_body = b\<rparr>"
    using assms(1,2) u
    by (simp add: respond_def handleRequest_def handlePostRequest_def ReadAll_def map_assign_def
        map_index_def s1 client_response_def finishRequest_def WriteHeader_def Write_def
        NewResponseWriter_def Let_def)
  show ?thesis
    by (simp add: a rec resp)
qed


theorem POST_key_and_configured_response_witness:
  "Method \<lparr>Method = ''POST'', URL_Path = ''/upload'', URL_RawQuery = [], ReqHeader = [],
           FormFile = (Some (File ''hello'' None), None)\<rparr> = ''POST'' \<and>
   FormFile \<lparr>Method = ''POST'', URL_Path = ''/upload'', URL_RawQuery = [], ReqHeader = [],
             FormFile = (Some (File ''hello'' None), None)\<rparr> = (Some (File ''hello'' None), None) \<and>
   httpPOSTRequests (Reset New) \<noteq> None \<and>
   SetPOSTResponseBody (Reset New) ''/upload? hello'' ''[1]'' =
     Inr ((Reset New)\<lparr>httpPOSTResponses :=
            Some [''/upload? hello'' \<mapsto> \<lparr>StatusCode = 200, Body = ''[1]''\<rparr>]\<rparr>) \<and>
   GetPOSTRequests
     (serve ((Reset New)\<lparr>httpPOSTResponses :=
            Some [''/upload? hello'' \<mapsto> \<lparr>StatusCode = 200, Body = ''[1]''\<rparr>]\<rparr>)
        \<lparr>Method = ''POST'', URL_Path = ''/upload'', URL_RawQuery = [], ReqHeader = [],
         FormFile = (Some (File ''hello'' None), None)\<rparr>) ''/upload? hello'' =
     [\<lparr>Method = ''POST'', URL_Path = ''/upload'', URL_RawQuery = [], ReqHeader = [],
       FormFile = (Some (File ''hello'' None), None)\<rparr>] \<and>
   GetPOSTRequests
     (serve ((Reset New)\<lparr>httpPOSTResponses :=
            Some [''/upload? hello'' \<mapsto> \<lparr>StatusCode = 200, Body = ''[1]''\<rparr>]\<rparr>)
        \<lparr>Method = ''POST'', URL_Path = ''/upload'', URL_RawQuery = [], ReqHeader = [],
         FormFile = (Some (File ''hello'' None), None)\<rparr>) ''/upload?'' = [] \<and>
   map_option resp_status
     (respond ((Reset New)\<lparr>httpPOSTResponses :=
            Some [''/upload? hello'' \<mapsto> \<lparr>StatusCode = 200, Body = ''[1]''\<rparr>]\<rparr>)
        \<lparr>Method = ''POST'', URL_Path = ''/upload'', URL_RawQuery = [], ReqHeader = [],
         FormFile = (Some (File ''hello'' None), None)\<rparr>) = Some 200 \<and>
   map_option resp_body
     (respond ((Reset New)\<lparr>httpPOSTResponses :=
            Some [''/upload? hello'' \<mapsto> \<lparr>StatusCode = 200, Body = ''[1]''\<rparr>]\<rparr>)
        \<lparr>Method = ''POST'', URL_Path = ''/upload'', URL_RawQuery = [], ReqHeader = [],
         FormFile = (Some (File ''hello'' None), None)\<rparr>) = Some ''[1]''"
proof -
  have set: "SetPOSTResponseBody (Reset New) (''/upload'' @ ''?'' @ [] @ '' '' @ ''hello'') ''[1]'' =
     Inr ((Reset New)\<lparr>httpPOSTResponses :=
            Some [''/upload? hello'' \<mapsto> \<lparr>StatusCode = 200, Body = ''[1]''\<rparr>]\<rparr>)"
    by (simp add: SetPOSTResponseBody_def map_assign_def Reset_def New_def)
  have init: "httpPOSTRequests (Reset New) \<noteq> None"
    by (simp add: Reset_def)
  from POST_key_and_configured_response [of
      "\<lparr>Method = ''POST'', URL_Path = ''/upload'', URL_RawQuery = [], ReqHeader = [],
        FormFile = (Some (File ''hello'' None), None)\<rparr>" "''hello''" "Reset New" "''[1]''"
      "(Reset New)\<lparr>httpPOSTResponses :=
            Some [''/upload? hello'' \<mapsto> \<lparr>StatusCode = 200, Body = ''[1]''\<rparr>]\<rparr>"]
    set init
  show ?thesis
    by (simp add: GetPOSTRequests_def slice_index_def map_index_def Reset_def New_def)
qed

section \<open>Lifecycle operations\<close>

text \<open>
  Claim C4. \<open>Reset\<close> replaces the four maps by empty ones and leaves the listener
  and the address as they were; after it every GET request, whatever had been
  configured before, is answered with 404.
\<close>

theorem Reset_clears_all_mappings:
  "Reset s = \<lparr>server = server s, url = url s,
              httpGETRequests = Some Map.empty, httpGETResponses = Some Map.empty,
              httpPOSTRequests = Some Map.empty, httpPOSTResponses = Some Map.empty\<rparr> \<and>
   map_option resp_status (respond (Reset s) (r\<lparr>Method := ''GET''\<rparr>)) = Some 404 \<and>
   map_option resp_body (respond (Reset s) (r\<lparr>Method := ''GET''\<rparr>)) =
     Some (''No httpGETResponse for '' @ [CHR 0x27] @ URL_Path r @ ''?'' @ URL_RawQuery r @ [CHR 0x27])"
  by (simp add: Reset_def respond_def handleRequest_def handleGetRequest_def map_assign_def
      map_index_def client_response_def finishRequest_def WriteHeader_def Write_def
      NewResponseWriter_def Let_def)

text \<open>
  Claim C8. \<open>Close\<close> returns the nil error in every state of the server, also when it is
  called a second time, and the second call changes nothing; on a server that was never
  opened it changes nothing at all. \<open>Close\<close> has no panicking branch.
\<close>

theorem Close_idempotent_never_fails:
  "fst (Close s) = None \<and> fst (Close (snd (Close s))) = None \<and>
   snd (Close (snd (Close s))) = snd (Close s) \<and> snd (Close New) = New"
  by (simp add: Close_def httptest_Close_def New_def split: option.splits)

section \<open>Captured requests\<close>

text \<open>
  Claim C5. Serving any sequence of requests on a server whose request maps are
  initialised appends to the sequence kept under a key exactly the requests recorded
  under that key, in the order of their arrival; nothing recorded earlier is replaced or
  dropped. Two GET requests for the same key, served after \<open>Reset\<close>, are both returned
  by \<open>GetGETRequests\<close>, first the one that arrived first.
\<close>

theorem requests_accumulate_in_arrival_order:
  assumes "httpGETRequests s \<noteq> None" and "httpPOSTRequests s \<noteq> None"
  shows "GetGETRequests (serve_all s rs) k = GetGETRequests s k @ filter (recordedGET k) rs \<and>
         GetPOSTRequests (serve_all s rs) k = GetPOSTRequests s k @ filter (recordedPOST k) rs"
  using assms by (simp add: GetGETRequests_serve_all GetPOSTRequests_serve_all)

theorem requests_accumulate_in_arrival_order_witness:
  "httpGETRequests (Reset New) \<noteq> None \<and> httpPOSTRequests (Reset New) \<noteq> None \<and>
   GetGETRequests
     (serve_all (Reset New)
        [\<lparr>Method = ''GET'', URL_Path = ''/a'', URL_RawQuery = ''x=1'', ReqHeader = [(''X-Seq'', ''1'')], FormFile = (None, None)\<rparr>,
         \<lparr>Method = ''GET'', URL_Path = ''/a'', URL_RawQuery = ''x=1'', ReqHeader = [(''X-Seq'', ''2'')], FormFile = (None, None)\<rparr>])
     ''/a?x=1'' =
     [\<lparr>Method = ''GET'', URL_Path = ''/a'', URL_RawQuery = ''x=1'', ReqHeader = [(''X-Seq'', ''1'')], FormFile = (None, None)\<rparr>,
      \<lparr>Method = ''GET'', URL_Path = ''/a'', URL_RawQuery = ''x=1'', ReqHeader = [(''X-Seq'', ''2'')], FormFile = (None, None)\<rparr>] \<and>
   length (GetGETRequests
     (serve_all (Reset New)
        [\<lparr>Method = ''GET'', URL_Path = ''/a'', URL_RawQuery = ''x=1'', ReqHeader = [(''X-Seq'', ''1'')], FormFile = (None, None)\<rparr>,
         \<lparr>Method = ''GET'', URL_Path = ''/a'', URL_RawQuery = ''x=1'', ReqHeader = [(''X-Seq'', ''2'')], FormFile = (None, None)\<rparr>])
     ''/a?x=1'') = 2"
  using requests_accumulate_in_arrival_order [of "Reset New"
        "[\<lparr>Method = ''GET'', URL_Path = ''/a'', URL_RawQuery = ''x=1'', ReqHeader = [(''X-Seq'', ''1'')], FormFile = (None, None)\<rparr>,
         \<lparr>Method = ''GET'', URL_Path = ''/a'', URL_RawQuery = ''x=1'', ReqHeader = [(''X-Seq'', ''2'')], FormFile = (None, None)\<rparr>]"
        "''/a?x=1''"]
  by (simp add: Reset_def New_def GetGETRequests_def slice_index_def map_index_def recordedGET_def getKey_def)

lemma inbound_Cons: "inbound (c # cs) = inbound [c] @ inbound cs"
  by (cases c) simp_all

lemma step_keeps_GET_empty:
  assumes "step s c = Inr s1" and "GetGETRequests s k = []"
    and "filter (recordedGET k) (inbound [c]) = []"
  shows "GetGETRequests s1 k = []"
proof (cases c)
  case (Inbound r)
  show ?thesis
  proof (cases "httpGETRequests s")
    case None
    with Inbound assms(1) show ?thesis
      using serve_keeps_nil(1) [of s r]
      by (auto simp: GetGETRequests_def slice_index_def map_index_def)
  next
    case (Some t)
    then have "httpGETRequests s \<noteq> None" by simp
    from GetGETRequests_serve [OF this, of r k] assms Inbound show ?thesis
      by (auto split: if_splits)
  qed
qed (use assms in \<open>auto simp: GetGETRequests_def slice_index_def map_index_def Open_def Close_def
       Reset_def SetGETResponseBody_def SetPOSTResponseBody_def map_assign_def
       split: option.splits\<close>)

lemma step_keeps_POST_empty:
  assumes "step s c = Inr s1" and "GetPOSTRequests s k = []"
    and "filter (recordedPOST k) (inbound [c]) = []"
  shows "GetPOSTRequests s1 k = []"
proof (cases c)
  case (Inbound r)
  show ?thesis
  proof (cases "httpPOSTRequests s")
    case None
    with Inbound assms(1) show ?thesis
      using serve_keeps_nil(2) [of s r]
      by (auto simp: GetPOSTRequests_def slice_index_def map_index_def)
  next
    case (Some t)
    then have "httpPOSTRequests s \<noteq> None" by simp
    from GetPOSTRequests_serve [OF this, of r k] assms Inbound show ?thesis
      by (auto split: if_splits)
  qed
qed (use assms in \<open>auto simp: GetPOSTRequests_def slice_index_def map_index_def Open_def Close_def
       Reset_def SetGETResponseBody_def SetPOSTResponseBody_def map_assign_def
       split: option.splits\<close>)

lemma run_keeps_GET_empty:
  "run s0 cs = Inr s \<Longrightarrow> GetGETRequests s0 k = [] \<Longrightarrow>
   filter (recordedGET k) (inbound cs) = [] \<Longrightarrow> GetGETRequests s k = []"
proof (induction cs arbitrary: s0)
  case Nil
  then show ?case by simp
next
  case (Cons c cs)
  from Cons.prems(1) obtain s1 where s1: "step s0 c = Inr s1" and r: "run s1 cs = Inr s"
    by (auto split: sum.splits)
  from Cons.prems(3) have f1: "filter (recordedGET k) (inbound [c]) = []"
    and f2: "filter (recordedGET k) (inbound cs) = []"
    by (simp_all add: inbound_Cons [of c cs])
  from step_keeps_GET_empty [OF s1 Cons.prems(2) f1] have "GetGETRequests s1 k = []" .
  from Cons.IH [OF r this f2] show ?case .
qed

lemma run_keeps_POST_empty:
  "run s0 cs = Inr s \<Longrightarrow> GetPOSTRequests s0 k = [] \<Longrightarrow>
   filter (recordedPOST k) (inbound cs) = [] \<Longrightarrow> GetPOSTRequests s k = []"
proof (induction cs arbitrary: s0)
  case Nil
  then show ?case by simp
next
  case (Cons c cs)
  from Cons.prems(1) obtain s1 where s1: "step s0 c = Inr s1" and r: "run s1 cs = Inr s"
    by (auto split: sum.splits)
  from Cons.prems(3) have f1: "filter (recordedPOST k) (inbound [c]) = []"
    and f2: "filter (recordedPOST k) (inbound cs) = []"
    by (simp_all add: inbound_Cons [of c cs])
  from step_keeps_POST_empty [OF s1 Cons.prems(2) f1] have "GetPOSTRequests s1 k = []" .
  from Cons.IH [OF r this f2] show ?case .
qed

text \<open>
  Claim C7. Let a test program make any calls on a server obtained from \<open>New\<close>,
  without a panic in a configuration call. For a key under which no inbound GET request
  was recorded, \<open>GetGETRequests\<close> returns the empty sequence, and for a key under which
  no inbound POST request was recorded, \<open>GetPOSTRequests\<close> does. Both operations
  return a plain sequence: they read a map, which succeeds also on a nil map, and have
  no failing branch.
\<close>

theorem unseen_key_yields_empty_sequence:
  assumes "run New cs = Inr s"
  shows "(filter (recordedGET k) (inbound cs) = [] \<longrightarrow> GetGETRequests s k = []) \<and>
         (filter (recordedPOST k) (inbound cs) = [] \<longrightarrow> GetPOSTRequests s k = [])"
proof -
  have "GetGETRequests New k = []" "GetPOSTRequests New k = []"
    by (simp_all add: GetGETRequests_def GetPOSTRequests_def slice_index_def map_index_def New_def)
  with assms show ?thesis
    by (blast intro: run_keeps_GET_empty run_keeps_POST_empty)
qed

theorem unseen_key_yields_empty_sequence_witness:
  "run New [CallOpen ''http://127.0.0.1:4000'', CallReset, CallSetGET ''/b?'' ''{}'',
            Inbound \<lparr>Method = ''GET'', URL_Path = ''/a'', URL_RawQuery = [], ReqHeader = [], FormFile = (None, None)\<rparr>,
            CallClose] =
     Inr \<lparr>server = Some \<lparr>httptest_URL = ''http://127.0.0.1:4000'', closed = True\<rparr>,
          url = Some ''http://127.0.0.1:4000'',
          httpGETRequests = Some [''/a?'' \<mapsto>
            [\<lparr>Method = ''GET'', URL_Path = ''/a'', URL_RawQuery = [], ReqHeader = [], FormFile = (None, None)\<rparr>]],
          httpGETResponses = Some [''/b?'' \<mapsto> \<lparr>StatusCode = 200, Body = ''{}''\<rparr>],
          httpPOSTRequests = Some Map.empty, httpPOSTResponses = Some Map.empty\<rparr> \<and>
   filter (recordedGET ''/b?'')
     (inbound [CallOpen ''http://127.0.0.1:4000'', CallReset, CallSetGET ''/b?'' ''{}'',
            Inbound \<lparr>Method = ''GET'', URL_Path = ''/a'', URL_RawQuery = [], ReqHeader = [], FormFile = (None, None)\<rparr>,
            CallClose]) = [] \<and>
   filter (recordedPOST ''/b?'')
     (inbound [CallOpen ''http://127.0.0.1:4000'', CallReset, CallSetGET ''/b?'' ''{}'',
            Inbound \<lparr>Method = ''GET'', URL_Path = ''/a'', URL_RawQuery = [], ReqHeader = [], FormFile = (None, None)\<rparr>,
            CallClose]) = [] \<and>
   GetGETRequests \<lparr>server = Some \<lparr>httptest_URL = ''http://127.0.0.1:4000'', closed = True\<rparr>,
          url = Some ''http://127.0.0.1:4000'',
          httpGETRequests = Some [''/a?'' \<mapsto>
            [\<lparr>Method = ''GET'', URL_Path = ''/a'', URL_RawQuery = [], ReqHeader = [], FormFile = (None, None)\<rparr>]],
          httpGETResponses = Some [''/b?'' \<mapsto> \<lparr>StatusCode = 200, Body = ''{}''\<rparr>],
          httpPOSTRequests = Some Map.empty, httpPOSTResponses = Some Map.empty\<rparr> ''/b?'' = [] \<and>
   GetPOSTRequests \<lparr>server = Some \<lparr>httptest_URL = ''http://127.0.0.1:4000'', closed = True\<rparr>,
          url = Some ''http://127.0.0.1:4000'',
          httpGETRequests = Some [''/a?'' \<mapsto>
            [\<lparr>Method = ''GET'', URL_Path = ''/a'', URL_RawQuery = [], ReqHeader = [], FormFile = (None, None)\<rparr>]],
          httpGETResponses = Some [''/b?'' \<mapsto> \<lparr>StatusCode = 200, Body = ''{}''\<rparr>],
          httpPOSTRequests = Some Map.empty, httpPOSTResponses = Some Map.empty\<rparr> ''/b?'' = []"
proof -
  have r: "run New [CallOpen ''http://127.0.0.1:4000'', CallReset, CallSetGET ''/b?'' ''{}'',
            Inbound \<lparr>Method = ''GET'', URL_Path = ''/a'', URL_RawQuery = [], ReqHeader = [], FormFile = (None, None)\<rparr>,
            CallClose] =
     Inr \<lparr>server = Some \<lparr>httptest_URL = ''http://127.0.0.1:4000'', closed = True\<rparr>,
          url = Some ''http://127.0.0.1:4000'',
          httpGETRequests = Some [''/a?'' \<mapsto>
            [\<lparr>Method = ''GET'', URL_Path = ''/a'', URL_RawQuery = [], ReqHeader = [], FormFile = (None, None)\<rparr>]],
          httpGETResponses = Some [''/b?'' \<mapsto> \<lparr>StatusCode = 200, Body = ''{}''\<rparr>],
          httpPOSTRequests = Some Map.empty, httpPOSTResponses = Some Map.empty\<rparr>"
    by (simp add: New_def Open_def Close_def httptest_Close_def Reset_def SetGETResponseBody_def
        map_assign_def serve_def handleRequest_def handleGetRequest_def slice_index_def
        map_index_def Let_def)
  from unseen_key_yields_empty_sequence [OF r, of "''/b?''"] r
  show ?thesis
    by (simp add: recordedGET_def recordedPOST_def getKey_def)
qed

section \<open>Registering responses\<close>

text \<open>
  Claim C9. On a server whose response maps are initialised, registering a GET response
  for a key twice leaves the map as a single registration of the second body would: the
  key has one entry, holding the second body, and every other entry and field is as
  before. The same holds for POST responses. Registering a GET response and a POST
  response under the same key text, in either order, keeps both: each lives in its own
  map.
\<close>

theorem last_registration_wins_keyspaces_separate:
  assumes "httpGETResponses s = Some g" and "httpPOSTResponses s = Some p"
  shows "run s [CallSetGET k b1, CallSetGET k b2] =
           Inr (s\<lparr>httpGETResponses := Some (g(k \<mapsto> \<lparr>StatusCode = 200, Body = b2\<rparr>))\<rparr>) \<and>
         run s [CallSetPOST k b1, CallSetPOST k b2] =
           Inr (s\<lparr>httpPOSTResponses := Some (p(k \<mapsto> \<lparr>StatusCode = 200, Body = b2\<rparr>))\<rparr>) \<and>
         run s [CallSetGET k b1, CallSetPOST k b2] =
           Inr (s\<lparr>httpGETResponses := Some (g(k \<mapsto> \<lparr>StatusCode = 200, Body = b1\<rparr>)),
                  httpPOSTResponses := Some (p(k \<mapsto> \<lparr>StatusCode = 200, Body = b2\<rparr>))\<rparr>) \<and>
         run s [CallSetPOST k b2, CallSetGET k b1] =
           Inr (s\<lparr>httpGETResponses := Some (g(k \<mapsto> \<lparr>StatusCode = 200, Body = b1\<rparr>)),
                  httpPOSTResponses := Some (p(k \<mapsto> \<lparr>StatusCode = 200, Body = b2\<rparr>))\<rparr>)"
  using assms
  by (simp add: SetGETResponseBody_def SetPOSTResponseBody_def map_assign_def)

theorem last_registration_wins_keyspaces_separate_witness:
  "httpGETResponses (Reset New) = Some Map.empty \<and> httpPOSTResponses (Reset New) = Some Map.empty \<and>
   run (Reset New) [CallSetGET ''/a?'' ''one'', CallSetGET ''/a?'' ''two''] =
     Inr ((Reset New)\<lparr>httpGETResponses := Some [''/a?'' \<mapsto> \<lparr>StatusCode = 200, Body = ''two''\<rparr>]\<rparr>) \<and>
   run (Reset New) [CallSetPOST ''/a?'' ''one'', CallSetPOST ''/a?'' ''two''] =
     Inr ((Reset New)\<lparr>httpPOSTResponses := Some [''/a?'' \<mapsto> \<lparr>StatusCode = 200, Body = ''two''\<rparr>]\<rparr>) \<and>
   run (Reset New) [CallSetGET ''/a?'' ''one'', CallSetPOST ''/a?'' ''two''] =
     Inr ((Reset New)\<lparr>httpGETResponses := Some [''/a?'' \<mapsto> \<lparr>StatusCode = 200, Body = ''one''\<rparr>],
                      httpPOSTResponses := Some [''/a?'' \<mapsto> \<lparr>StatusCode = 200, Body = ''two''\<rparr>]\<rparr>)"
  using last_registration_wins_keyspaces_separate [of "Reset New" Map.empty Map.empty "''/a?''" "''one''" "''two''"]
  by (simp add: Reset_def)

section \<open>Before the first Reset\<close>

lemma step_keeps_uninitialised:
  assumes "step s c = Inr s1" and "c \<noteq> CallReset" and "uninitialised s"
  shows "uninitialised s1"
proof (cases c)
  case (Inbound r)
  with assms(1) have "s1 = serve s r" by simp
  with assms(3) show ?thesis
    by (simp add: uninitialised_def serve_keeps_nil serve_frame)
qed (use assms in \<open>auto simp: uninitialised_def Open_def Close_def SetGETResponseBody_def
       SetPOSTResponseBody_def map_assign_def split: option.splits\<close>)

lemma run_keeps_uninitialised:
  "run s0 cs = Inr s \<Longrightarrow> CallReset \<notin> set cs \<Longrightarrow> uninitialised s0 \<Longrightarrow> uninitialised s"
proof (induction cs arbitrary: s0)
  case Nil
  then show ?case by simp
next
  case (Cons c cs)
  from Cons.prems(1) obtain s1 where s1: "step s0 c = Inr s1" and r: "run s1 cs = Inr s"
    by (auto split: sum.splits)
  from Cons.prems(2) have c: "c \<noteq> CallReset" and cs: "CallReset \<notin> set cs" by auto
  from step_keeps_uninitialised [OF s1 c Cons.prems(3)] have "uninitialised s1" .
  from Cons.IH [OF r cs this] show ?case .
qed

text \<open>
  Claim C10, as stated: on a server from \<open>New\<close> the handling of any inbound GET or POST
  request writes to a nil map and panics. A POST request whose file field cannot be
  extracted panics on reading the nil file instead, before the handler reaches the map.
\<close>

theorem POST_without_file_on_New_counterexample:
  "fst (handleRequest New NewResponseWriter
      \<lparr>Method = ''POST'', URL_Path = ''/upload'', URL_RawQuery = [], ReqHeader = [],
       FormFile = (None, Some ''request Content-Type isn't multipart/form-data'')\<rparr>)
     = Some NilPointerDereference \<and>
   fst (handleRequest New NewResponseWriter
      \<lparr>Method = ''POST'', URL_Path = ''/upload'', URL_RawQuery = [], ReqHeader = [],
       FormFile = (None, Some ''request Content-Type isn't multipart/form-data'')\<rparr>)
     \<noteq> Some NilMapAssignment"
  by (simp add: handleRequest_def handlePostRequest_def Let_def)

text \<open>
  Claim C10, amended: a server from \<open>New\<close> has all four maps nil, and they stay nil
  through any calls that do not include \<open>Reset\<close>. In such a state
  \<open>SetGETResponseBody\<close> and \<open>SetPOSTResponseBody\<close> panic on the assignment to a nil
  map, and so do the handling of every GET request and of every POST request whose file
  was extracted, each leaving the server as it was. \<open>Reset\<close> initialises the four maps.
\<close>

theorem nil_maps_until_Reset:
  assumes "run New cs = Inr s" and "CallReset \<notin> set cs"
  shows "uninitialised New \<and> uninitialised s \<and>
         SetGETResponseBody s k b = Inl NilMapAssignment \<and>
         SetPOSTResponseBody s k b = Inl NilMapAssignment \<and>
         handleGetRequest s w r = (Some NilMapAssignment, s, w) \<and>
         (fst (FormFile r) \<noteq> None \<longrightarrow>
            fst (handlePostRequest s w r) = Some NilMapAssignment \<and>
            fst (snd (handlePostRequest s w r)) = s) \<and>
         httpGETRequests (Reset s) = Some Map.empty \<and>
         httpGETResponses (Reset s) = Some Map.empty \<and>
         httpPOSTRequests (Reset s) = Some Map.empty \<and>
         httpPOSTResponses (Reset s) = Some Map.empty"
proof -
  have new: "uninitialised New"
    by (simp add: uninitialised_def New_def)
  from run_keeps_uninitialised [OF assms new] have u: "uninitialised s" .
  then have g: "httpGETRequests s = None" and p: "httpPOSTRequests s = None"
    by (simp_all add: uninitialised_def)
  have post: "fst (FormFile r) \<noteq> None \<longrightarrow>
            fst (handlePostRequest s w r) = Some NilMapAssignment \<and>
            fst (snd (handlePostRequest s w r)) = s"
    by (cases "fst (FormFile r)") (simp_all add: handlePostRequest_nil [OF _ p])
  from u have sets: "SetGETResponseBody s k b = Inl NilMapAssignment"
      "SetPOSTResponseBody s k b = Inl NilMapAssignment"
    by (simp_all add: uninitialised_def SetGETResponseBody_def SetPOSTResponseBody_def map_assign_def)
  from post show ?thesis
    by (simp add: new u sets handleGetRequest_nil [OF g] Reset_def)
qed

theorem nil_maps_until_Reset_witness:
  "run New [CallOpen ''http://127.0.0.1:4000'',
            Inbound \<lparr>Method = ''GET'', URL_Path = ''/a'', URL_RawQuery = [], ReqHeader = [], FormFile = (None, None)\<rparr>,
            CallClose] =
     Inr (New\<lparr>server := Some \<lparr>httptest_URL = ''http://127.0.0.1:4000'', closed = True\<rparr>,
              url := Some ''http://127.0.0.1:4000''\<rparr>) \<and>
   CallReset \<notin> set [CallOpen ''http://127.0.0.1:4000'',
            Inbound \<lparr>Method = ''GET'', URL_Path = ''/a'', URL_RawQuery = [], ReqHeader = [], FormFile = (None, None)\<rparr>,
            CallClose] \<and>
   uninitialised (New\<lparr>server := Some \<lparr>httptest_URL = ''http://127.0.0.1:4000'', closed = True\<rparr>,
              url := Some ''http://127.0.0.1:4000''\<rparr>) \<and>
   SetGETResponseBody (New\<lparr>server := Some \<lparr>httptest_URL = ''http://127.0.0.1:4000'', closed = True\<rparr>,
              url := Some ''http://127.0.0.1:4000''\<rparr>) ''/a?'' ''{}'' = Inl NilMapAssignment \<and>
   fst (handleGetRequest (New\<lparr>server := Some \<lparr>httptest_URL = ''http://127.0.0.1:4000'', closed = True\<rparr>,
              url := Some ''http://127.0.0.1:4000''\<rparr>) NewResponseWriter
        \<lparr>Method = ''GET'', URL_Path = ''/a'', URL_RawQuery = [], ReqHeader = [], FormFile = (None, None)\<rparr>)
     = Some NilMapAssignment \<and>
   fst (FormFile \<lparr>Method = ''POST'', URL_Path = ''/a'', URL_RawQuery = [], ReqHeader = [],
         FormFile = (Some (File ''hello'' None), None)\<rparr>) \<noteq> None \<and>
   fst (handlePostRequest (New\<lparr>server := Some \<lparr>httptest_URL = ''http://127.0.0.1:4000'', closed = True\<rparr>,
              url := Some ''http://127.0.0.1:4000''\<rparr>) NewResponseWriter
        \<lparr>Method = ''POST'', URL_Path = ''/a'', URL_RawQuery = [], ReqHeader = [],
         FormFile = (Some (File ''hello'' None), None)\<rparr>)
     = Some NilMapAssignment"
proof -
  have r: "run New [CallOpen ''http://127.0.0.1:4000'',
            Inbound \<lparr>Method = ''GET'', URL_Path = ''/a'', URL_RawQuery = [], ReqHeader = [], FormFile = (None, None)\<rparr>,
            CallClose] =
     Inr (New\<lparr>server := Some \<lparr>httptest_URL = ''http://127.0.0.1:4000'', closed = True\<rparr>,
              url := Some ''http://127.0.0.1:4000''\<rparr>)"
    by (simp add: New_def Open_def Close_def httptest_Close_def serve_def handleRequest_def
        handleGetRequest_def map_assign_def Let_def)
  have n: "CallReset \<notin> set [CallOpen ''http://127.0.0.1:4000'',
            Inbound \<lparr>Method = ''GET'', URL_Path = ''/a'', URL_RawQuery = [], ReqHeader = [], FormFile = (None, None)\<rparr>,
            CallClose]"
    by simp
  from nil_maps_until_Reset [OF r n, of "''/a?''" "''{}''" NewResponseWriter
      "\<lparr>Method = ''GET'', URL_Path = ''/a'', URL_RawQuery = [], ReqHeader = [], FormFile = (None, None)\<rparr>"]
    nil_maps_until_Reset [OF r n, of "''/a?''" "''{}''" NewResponseWriter
      "\<lparr>Method = ''POST'', URL_Path = ''/a'', URL_RawQuery = [], ReqHeader = [],
         FormFile = (Some (File ''hello'' None), None)\<rparr>"]
    r n
  show ?thesis by simp
qed

end
